theory Spec2Isabelle
  imports Complex_Main
begin

section \<open>The browser client (frontend/src/App.tsx)\<close>

subsection \<open>Data\<close>

text \<open>
  A \<open>Blob\<close> carries a MIME type and bytes; a \<open>File\<close> is a blob with a name.
  The field \<open>type\<close> is the declared media type, the only field the client's validation reads.
\<close>

record blob =
  blob_type :: string
  blob_bytes :: "nat list"

record js_file =
  name :: string
  type :: string
  bytes :: "nat list"

text \<open>
  The user-facing messages of the source are Korean string literals. They are represented by
  constructors, one per literal:
  \<^item> \<open>UnsupportedFileType\<close>: the \<open>alert\<close> text of \<open>validateAndSetFile\<close>
    ("unsupported file format (only PNG, JPG, PDF, BMP, TIFF)");
  \<^item> \<open>ExtractionFailed\<close>: the toast text of the \<open>catch\<close> block of \<open>performOCR\<close>
    ("an error occurred while extracting text");
  \<^item> \<open>CopiedToClipboard\<close>: the toast text of \<open>copyToClipboard\<close>.
\<close>

datatype message = UnsupportedFileType | ExtractionFailed | CopiedToClipboard

datatype toast_type = success | error

record toast_msg =
  message :: message
  toast_type :: toast_type

text \<open>
  What the \<open>catch\<close> block of \<open>performOCR\<close> can receive: the rejection of \<open>fetch\<close>, the
  \<open>Error\<close> thrown on a response that is not ok, the rejection of \<open>response.json()\<close>, or
  the \<open>TypeError\<close> of reading \<open>data.text\<close> when \<open>data\<close> is \<open>null\<close>.
\<close>

datatype js_error = FetchRejected | OcrRequestFailed | JsonRejected | TypeError

text \<open>
  The request \<open>fetch\<close> sends: method, URL and the entries of the \<open>FormData\<close> body.
\<close>

record http_request =
  httpMethod :: string
  url :: string
  formData :: "(string \<times> js_file) list"

text \<open>
  What awaiting \<open>fetch\<close> gives: a rejection (network error) or a response with a status and a
  body. \<open>response.json()\<close> rejects (\<open>NotJson\<close>), or yields \<open>null\<close>, or yields an object,
  modelled as a map from field names to string values; \<open>data.text\<close> is the lookup of
  \<open>text\<close>, which is \<open>undefined\<close> (\<open>None\<close>) when the field is absent.
\<close>

datatype response_body = NotJson | JsonNull | JsonObject "string \<rightharpoonup> string"

datatype fetch_outcome = NetworkError | Response (status: nat) (body: response_body)

definition ok :: "nat \<Rightarrow> bool" where
  "ok st \<longleftrightarrow> 200 \<le> st \<and> st \<le> 299"

text \<open>
  The component state: the six \<open>useState\<close> cells (\<open>file_sel\<close> is the cell \<open>file\<close>), then
  what the component has done to the world, kept as logs: the running \<open>setInterval\<close> timer
  (its period in ms), the alerts raised, the requests sent and the errors written to the
  console.
  \<open>extractedText\<close> holds what \<open>setExtractedText\<close> was last given; \<open>None\<close> is the run-time value
  \<open>undefined\<close>, which \<open>data.text\<close> can be.
\<close>

record app =
  file_sel :: "js_file option"
  extractedText :: "string option"
  loading :: bool
  progress :: int
  isDragging :: bool
  toast :: "toast_msg option"
  interval :: "nat option"
  alerts :: "message list"
  sent :: "http_request list"
  console :: "js_error list"

subsection \<open>The progress effect\<close>

text \<open>
  \<open>useEffect(..., [loading])\<close> runs after the first render and after every render in which
  \<open>loading\<close> changed. Its cleanup clears the timer of the previous run. \<open>setLoading\<close>
  applies the effect at once: the render between the change of \<open>loading\<close> and the effect is
  not a state of the model.
\<close>

definition loading_effect :: "app \<Rightarrow> app" where
  "loading_effect s =
     (if loading s then s\<lparr>progress := 0, interval := Some 500\<rparr>
      else s\<lparr>progress := 100, interval := None\<rparr>)"

definition setLoading :: "bool \<Rightarrow> app \<Rightarrow> app" where
  "setLoading b s = (if loading s = b then s else loading_effect (s\<lparr>loading := b\<rparr>))"

text \<open>
  The updater the timer passes to \<open>setProgress\<close>. \<open>r\<close> is the value of \<open>Math.random()\<close>, a
  number with \<open>0 \<le> r < 1\<close>, taken as a real number; the progress values are small integers,
  which a JavaScript number holds exactly.
\<close>

definition nextProgress :: "real \<Rightarrow> int \<Rightarrow> int" where
  "nextProgress r prev = (if prev \<ge> 95 then prev else prev + \<lfloor>r * 10\<rfloor> + 1)"

definition tick :: "real \<Rightarrow> app \<Rightarrow> app" where
  "tick r s = (if interval s = None then s else s\<lparr>progress := nextProgress r (progress s)\<rparr>)"

text \<open>The progress after the timer has fired once for each value of the list, in order.\<close>

fun ticks :: "real list \<Rightarrow> int \<Rightarrow> int" where
  "ticks [] p = p"
| "ticks (r # rs) p = ticks rs (nextProgress r p)"

subsection \<open>Selecting a file\<close>

definition validTypes :: "string list" where
  "validTypes = [''image/png'', ''image/jpeg'', ''application/pdf'', ''image/bmp'', ''image/tiff'']"

definition validateAndSetFile :: "js_file \<Rightarrow> app \<Rightarrow> app" where
  "validateAndSetFile selectedFile s =
     (if type selectedFile \<in> set validTypes
      then s\<lparr>file_sel := Some selectedFile, extractedText := Some ''''\<rparr>
      else s\<lparr>alerts := alerts s @ [UnsupportedFileType]\<rparr>)"

subsection \<open>Pasting from the clipboard\<close>

text \<open>
  \<open>s.indexOf(pat)\<close>: the position of the first occurrence of \<open>pat\<close> in \<open>s\<close>, or \<open>-1\<close>.
\<close>

fun startsWith :: "string \<Rightarrow> string \<Rightarrow> bool" where
  "startsWith s [] = True"
| "startsWith [] (p # ps) = False"
| "startsWith (c # cs) (p # ps) = (c = p \<and> startsWith cs ps)"

fun indexOfFrom :: "int \<Rightarrow> string \<Rightarrow> string \<Rightarrow> int" where
  "indexOfFrom i [] pat = (if pat = [] then i else - 1)"
| "indexOfFrom i (c # cs) pat =
     (if startsWith (c # cs) pat then i else indexOfFrom (i + 1) cs pat)"

definition indexOf :: "string \<Rightarrow> string \<Rightarrow> int" where
  "indexOf s pat = indexOfFrom 0 s pat"

text \<open>
  The decimal text a template literal gives for an integral number, as
  \<open>new Date().getTime()\<close> is.
\<close>

fun digits :: "nat \<Rightarrow> string" where
  "digits n =
     (if n < 10 then [''0123456789'' ! n]
      else digits (n div 10) @ [''0123456789'' ! (n mod 10)])"

declare digits.simps [simp del]

definition numberToString :: "int \<Rightarrow> string" where
  "numberToString n = (if n < 0 then ''-'' @ digits (nat (- n)) else digits (nat n))"

text \<open>
  A \<open>DataTransferItem\<close>: its type, and what \<open>getAsFile()\<close> returns, which is \<open>null\<close>
  (\<open>None\<close>) for an item that is not a file.
\<close>

record clipboard_item =
  item_type :: string
  getAsFile :: "blob option"

definition pastedFile :: "int \<Rightarrow> blob \<Rightarrow> js_file" where
  "pastedFile now b =
     \<lparr>name = ''pasted_image_'' @ numberToString now @ ''.png'',
      type = blob_type b,
      bytes = blob_bytes b\<rparr>"

text \<open>The \<open>for\<close> loop of \<open>handlePaste\<close> over the remaining items; \<open>break\<close> ends it.\<close>

fun pasteLoop :: "int \<Rightarrow> clipboard_item list \<Rightarrow> app \<Rightarrow> app" where
  "pasteLoop now [] s = s"
| "pasteLoop now (it # items) s =
     (if indexOf (item_type it) ''image'' \<noteq> - 1
      then (case getAsFile it of
              Some b \<Rightarrow> validateAndSetFile (pastedFile now b) s
            | None \<Rightarrow> pasteLoop now items s)
      else pasteLoop now items s)"

text \<open>\<open>items\<close> is \<open>e.clipboardData?.items\<close>; \<open>now\<close> is the clock when the file is built.\<close>

definition handlePaste :: "int \<Rightarrow> clipboard_item list option \<Rightarrow> app \<Rightarrow> app" where
  "handlePaste now items s = (case items of None \<Rightarrow> s | Some its \<Rightarrow> pasteLoop now its s)"

text \<open>
  The reading "the handler uses only the first item whose type contains \<open>image\<close>, ignoring
  all later items", written out to be compared with \<open>handlePaste\<close>.
\<close>

definition handlePaste_firstImageOnly ::
  "int \<Rightarrow> clipboard_item list option \<Rightarrow> app \<Rightarrow> app" where
  "handlePaste_firstImageOnly now items s =
     (case items of
        None \<Rightarrow> s
      | Some its \<Rightarrow>
          (case find (\<lambda>it. indexOf (item_type it) ''image'' \<noteq> - 1) its of
             None \<Rightarrow> s
           | Some it \<Rightarrow>
               (case getAsFile it of
                  None \<Rightarrow> s
                | Some b \<Rightarrow> validateAndSetFile (pastedFile now b) s)))"

text \<open>An item the loop of \<open>handlePaste\<close> passes over: not an image type, or no file.\<close>

definition skipped :: "clipboard_item \<Rightarrow> bool" where
  "skipped it \<longleftrightarrow> indexOf (item_type it) ''image'' = - 1 \<or> getAsFile it = None"

subsection \<open>Drag and drop, the file input, reset\<close>

definition handleDragOver :: "app \<Rightarrow> app" where
  "handleDragOver s = s\<lparr>isDragging := True\<rparr>"

definition handleDragLeave :: "app \<Rightarrow> app" where
  "handleDragLeave s = s\<lparr>isDragging := False\<rparr>"

definition handleDrop :: "js_file list \<Rightarrow> app \<Rightarrow> app" where
  "handleDrop files s =
     (case files of
        [] \<Rightarrow> s\<lparr>isDragging := False\<rparr>
      | droppedFile # _ \<Rightarrow> validateAndSetFile droppedFile (s\<lparr>isDragging := False\<rparr>))"

definition handleFileSelect :: "js_file list option \<Rightarrow> app \<Rightarrow> app" where
  "handleFileSelect files s =
     (case files of
        Some (f # _) \<Rightarrow> validateAndSetFile f s
      | _ \<Rightarrow> s)"

text \<open>
  \<open>reset\<close> also empties the file input element, which is not part of the component state.
\<close>

definition reset :: "app \<Rightarrow> app" where
  "reset s = s\<lparr>file_sel := None, extractedText := Some ''''\<rparr>"

text \<open>
  \<open>copyToClipboard\<close> writes to the system clipboard, which is outside the component, and
  shows a toast; the first effect clears a toast three seconds after it was set.
\<close>

definition copyToClipboard :: "app \<Rightarrow> app" where
  "copyToClipboard s = s\<lparr>toast := Some \<lparr>message = CopiedToClipboard, toast_type = success\<rparr>\<rparr>"

definition toastTimeout :: "app \<Rightarrow> app" where
  "toastTimeout s = s\<lparr>toast := None\<rparr>"

subsection \<open>The extraction call\<close>

text \<open>
  \<open>import.meta.env.VITE_API_URL || "http://localhost:8000"\<close>: the default is taken when the
  variable is unset or the empty string.
\<close>

definition apiUrl :: "string option \<Rightarrow> string" where
  "apiUrl env =
     (case env of
        None \<Rightarrow> ''http://localhost:8000''
      | Some u \<Rightarrow> if u = [] then ''http://localhost:8000'' else u)"

text \<open>
  \<open>performOCR\<close> is asynchronous. \<open>performOCR_begin\<close> is the part that runs up to the
  \<open>await fetch\<close>; \<open>performOCR_settle\<close> is the rest, run when the outcome of \<open>fetch\<close> is
  known. Other handlers may run between the two.
\<close>

definition performOCR_begin :: "string option \<Rightarrow> app \<Rightarrow> app" where
  "performOCR_begin env s =
     (case file_sel s of
        None \<Rightarrow> s
      | Some f \<Rightarrow>
          (setLoading True s)
            \<lparr>sent := sent s @
               [\<lparr>httpMethod = ''POST'', url = apiUrl env @ ''/extract-text'',
                 formData = [(''file'', f)]\<rparr>]\<rparr>)"

definition catchError :: "js_error \<Rightarrow> app \<Rightarrow> app" where
  "catchError e s =
     s\<lparr>console := console s @ [e],
       toast := Some \<lparr>message = ExtractionFailed, toast_type = error\<rparr>\<rparr>"

definition performOCR_settle :: "fetch_outcome \<Rightarrow> app \<Rightarrow> app" where
  "performOCR_settle outcome s =
     setLoading False
       (case outcome of
          NetworkError \<Rightarrow> catchError FetchRejected s
        | Response st b \<Rightarrow>
            if \<not> ok st then catchError OcrRequestFailed s
            else (case b of
                    NotJson \<Rightarrow> catchError JsonRejected s
                  | JsonNull \<Rightarrow> catchError TypeError s
                  | JsonObject data \<Rightarrow> s\<lparr>extractedText := data ''text''\<rparr>))"

text \<open>The outcomes that take \<open>performOCR\<close> into its \<open>catch\<close> block.\<close>

fun failedCall :: "fetch_outcome \<Rightarrow> bool" where
  "failedCall NetworkError = True"
| "failedCall (Response st b) = (\<not> ok st \<or> b = NotJson \<or> b = JsonNull)"

text \<open>One whole call of \<open>performOCR\<close>, with nothing running in between.\<close>

definition performOCR :: "string option \<Rightarrow> fetch_outcome \<Rightarrow> app \<Rightarrow> app" where
  "performOCR env outcome s =
     (case file_sel s of
        None \<Rightarrow> s
      | Some f \<Rightarrow> performOCR_settle outcome (performOCR_begin env s))"

subsection \<open>The component as a transition system\<close>

text \<open>
  The state after the first render (the \<open>useState\<close> defaults) and after its effects have run.
\<close>

definition initial :: app where
  "initial =
     \<lparr>file_sel = None, extractedText = Some '''', loading = False, progress = 0,
      isDragging = False, toast = None, interval = None, alerts = [], sent = [],
      console = []\<rparr>"

definition mounted :: app where
  "mounted = loading_effect initial"

text \<open>\<open>!extractedText\<close>: true for \<open>undefined\<close> and for the empty string.\<close>

definition falsy :: "string option \<Rightarrow> bool" where
  "falsy t = (case t of None \<Rightarrow> True | Some v \<Rightarrow> v = [])"

text \<open>
  What can happen to the mounted component. The extract and reset buttons are rendered with
  \<open>disabled={!file || loading}\<close>, the copy buttons with \<open>disabled={!extractedText || loading}\<close>;
  a click on a disabled button does nothing. A \<open>fetch\<close> settles only while a call of
  \<open>performOCR\<close> is waiting for it, which is while \<open>loading\<close> holds. The timer calls its
  updater only while it is set.
\<close>

datatype event =
    DragOver
  | DragLeave
  | Drop "js_file list"
  | FileSelect "js_file list option"
  | Paste int "clipboard_item list option"
  | ClickExtract
  | FetchSettled fetch_outcome
  | TimerFires real
  | ClickReset
  | ClickCopy
  | ToastTimeout

fun step :: "string option \<Rightarrow> event \<Rightarrow> app \<Rightarrow> app" where
  "step env DragOver s = handleDragOver s"
| "step env DragLeave s = handleDragLeave s"
| "step env (Drop files) s = handleDrop files s"
| "step env (FileSelect files) s = handleFileSelect files s"
| "step env (Paste now items) s = handlePaste now items s"
| "step env ClickExtract s =
     (if file_sel s = None \<or> loading s then s else performOCR_begin env s)"
| "step env (FetchSettled outcome) s =
     (if loading s then performOCR_settle outcome s else s)"
| "step env (TimerFires r) s = tick r s"
| "step env ClickReset s = (if file_sel s = None \<or> loading s then s else reset s)"
| "step env ClickCopy s =
     (if falsy (extractedText s) \<or> loading s then s else copyToClipboard s)"
| "step env ToastTimeout s = toastTimeout s"

fun run :: "string option \<Rightarrow> event list \<Rightarrow> app \<Rightarrow> app" where
  "run env [] s = s"
| "run env (ev # evs) s = run env evs (step env ev s)"

text \<open>
  An event the browser can deliver: a firing of the timer carries a value of
  \<open>Math.random()\<close>, which is at least 0 and below 1.
\<close>

fun possible :: "event \<Rightarrow> bool" where
  "possible (TimerFires r) = (0 \<le> r \<and> r < 1)"
| "possible _ = True"

text \<open>The files the requests sent so far have carried.\<close>

definition submitted :: "app \<Rightarrow> js_file list" where
  "submitted s = map snd (concat (map formData (sent s)))"

text \<open>
  A request to the extraction endpoint: a POST to \<open>/extract-text\<close> under the API's URL
  whose form data has the one entry \<open>file\<close>.
\<close>

definition extractRequest :: "string option \<Rightarrow> http_request \<Rightarrow> bool" where
  "extractRequest env r \<longleftrightarrow>
     httpMethod r = ''POST'' \<and> url r = apiUrl env @ ''/extract-text'' \<and>
     map fst (formData r) = [''file'']"

text \<open>
  The selected file and every file sent have a type from \<open>validTypes\<close>.
\<close>

definition typed :: "app \<Rightarrow> bool" where
  "typed s \<longleftrightarrow>
     (case file_sel s of None \<Rightarrow> True | Some g \<Rightarrow> type g \<in> set validTypes) \<and>
     list_all (\<lambda>g. type g \<in> set validTypes) (submitted s)"

subsection \<open>Example inputs\<close>

definition examplePng :: js_file where
  "examplePng = \<lparr>name = ''scan.png'', type = ''image/png'', bytes = [137, 80, 78, 71]\<rparr>"

definition examplePdf :: js_file where
  "examplePdf = \<lparr>name = ''report.pdf'', type = ''application/pdf'', bytes = [37, 80, 68, 70]\<rparr>"

definition exampleExe :: js_file where
  "exampleExe =
     \<lparr>name = ''setup.exe'', type = ''application/x-msdownload'', bytes = [77, 90]\<rparr>"

definition exampleGif :: blob where
  "exampleGif = \<lparr>blob_type = ''image/gif'', blob_bytes = [71, 73, 70]\<rparr>"

definition examplePngBlob :: blob where
  "examplePngBlob = \<lparr>blob_type = ''image/png'', blob_bytes = [137, 80, 78, 71]\<rparr>"

text \<open>A state with a file selected, and one after an extraction that returned text.\<close>

definition exampleSelected :: app where
  "exampleSelected = mounted\<lparr>file_sel := Some examplePng\<rparr>"

definition exampleDone :: app where
  "exampleDone = mounted\<lparr>file_sel := Some examplePng, extractedText := Some ''Hello''\<rparr>"

text \<open>A state in the middle of an extraction call.\<close>

definition exampleLoading :: app where
  "exampleLoading = performOCR_begin None exampleSelected"

text \<open>
  Clipboard items: markup, an image type set as a string (no file), and two image files.
\<close>

definition exampleHtmlItem :: clipboard_item where
  "exampleHtmlItem = \<lparr>item_type = ''text/html'', getAsFile = None\<rparr>"

definition exampleSvgText :: clipboard_item where
  "exampleSvgText = \<lparr>item_type = ''image/svg+xml'', getAsFile = None\<rparr>"

definition exampleGifItem :: clipboard_item where
  "exampleGifItem = \<lparr>item_type = ''image/gif'', getAsFile = Some exampleGif\<rparr>"

definition examplePngItem :: clipboard_item where
  "examplePngItem = \<lparr>item_type = ''image/png'', getAsFile = Some examplePngBlob\<rparr>"

section \<open>The backend image (Dockerfile)\<close>

text \<open>
  The instructions of the backend's Dockerfile. A \<open>RUN\<close> line is the list of the commands it
  chains with \<open>&&\<close>, each command a list of words.
\<close>

datatype instruction =
    FROM string
  | RUN "string list list"
  | WORKDIR string
  | COPY string string
  | EXPOSE nat
  | CMD "string list"

definition dockerfile :: "instruction list" where
  "dockerfile =
     [FROM ''python:3.10-slim'',
      RUN [[''apt-get'', ''update''],
           [''apt-get'', ''install'', ''-y'',
            ''tesseract-ocr'',
            ''tesseract-ocr-kor'',
            ''tesseract-ocr-eng'',
            ''libtesseract-dev'',
            ''poppler-utils''],
           [''apt-get'', ''clean''],
           [''rm'', ''-rf'', ''/var/lib/apt/lists/*'']],
      WORKDIR ''/app'',
      COPY ''requirements.txt'' ''.'',
      RUN [[''pip'', ''install'', ''--no-cache-dir'', ''-r'', ''requirements.txt'']],
      COPY ''main.py'' ''.'',
      EXPOSE 8000,
      CMD [''uvicorn'', ''main:app'', ''--host'', ''0.0.0.0'', ''--port'', ''8000'']]"

text \<open>
  The packages a command names on \<open>apt-get install\<close>: its arguments that are not options.
\<close>

fun aptInstall :: "string list \<Rightarrow> string list" where
  "aptInstall (c # sub # args) =
     (if c = ''apt-get'' \<and> sub = ''install''
      then filter (\<lambda>a. \<not> startsWith a ''-'') args else [])"
| "aptInstall _ = []"

fun installs :: "instruction \<Rightarrow> string list" where
  "installs (RUN cmds) = concat (map aptInstall cmds)"
| "installs _ = []"

text \<open>The packages the Dockerfile asks for by name.\<close>

definition requested :: "instruction list \<Rightarrow> string list" where
  "requested df = concat (map installs df)"

text \<open>
  What \<open>apt-get install\<close> leaves installed: the packages asked for and, with every installed
  package, the packages it brings along (its dependencies). Which packages a package brings
  along is declared by the package index of the base image's distribution, not by the
  Dockerfile; it is the parameter \<open>depends\<close>.
\<close>

inductive_set installed :: "(string \<Rightarrow> string list) \<Rightarrow> string list \<Rightarrow> string set"
  for depends :: "string \<Rightarrow> string list" and pkgs :: "string list"
  where
    asked: "p \<in> set pkgs \<Longrightarrow> p \<in> installed depends pkgs"
  | brought: "p \<in> installed depends pkgs \<Longrightarrow> d \<in> set (depends p) \<Longrightarrow> d \<in> installed depends pkgs"

text \<open>
  Tesseract's language packs are the packages \<open>tesseract-ocr-<code>\<close>; the pack's language
  code is what follows the prefix.
\<close>

definition isLanguagePack :: "string \<Rightarrow> bool" where
  "isLanguagePack p = startsWith p ''tesseract-ocr-''"

definition languageCode :: "string \<Rightarrow> string" where
  "languageCode p = drop (length ''tesseract-ocr-'') p"

text \<open>The language packs among the packages of a list, and among the installed packages.\<close>

definition languagePacks :: "string list \<Rightarrow> string list" where
  "languagePacks pkgs = map languageCode (filter isLanguagePack pkgs)"

definition installedPacks :: "(string \<Rightarrow> string list) \<Rightarrow> instruction list \<Rightarrow> string set" where
  "installedPacks depends df =
     languageCode ` {p \<in> installed depends (requested df). isLanguagePack p}"

text \<open>
  The base image \<open>python:3.10-slim\<close> is a Debian system. Debian's package \<open>tesseract-ocr\<close>
  declares, besides shared libraries, the dependencies \<open>tesseract-ocr-eng\<close> and
  \<open>tesseract-ocr-osd\<close>; the language packs declare none. This is the part of Debian's
  index that bears on language packs, used as a concrete value of \<open>depends\<close>.
\<close>

definition debianDepends :: "string \<Rightarrow> string list" where
  "debianDepends p =
     (if p = ''tesseract-ocr'' then [''tesseract-ocr-eng'', ''tesseract-ocr-osd''] else [])"

text \<open>
  Modelled from the spec: the default language configuration of the OCR adapter, which lives
  in the backend's \<open>main.py\<close>: "the combination of Korean and English".
\<close>

definition defaultLanguages :: "string list" where
  "defaultLanguages = [''kor'', ''eng'']"

section \<open>The extraction pipeline (backend main.py)\<close>

text \<open>
  The server-side pipeline is \<open>main.py\<close>, which the image copies and runs and the client
  calls at \<open>/extract-text\<close>. Its source is not part of the verified files: every definition
  of this section is modelled from the specification's data model (3), component design (4)
  and error taxonomy (7). The PDF renderer and the OCR engine are the two external
  capabilities, taken as parameters.
\<close>


text \<open>Modelled from the spec: the error taxonomy (7).\<close>

datatype error_kind =
    UnsupportedFormat
  | CorruptDocument
  | RasterizationFailed
  | OcrEngineFailure
  | LanguageUnavailable
  | InternalError


record PageImage =
  pixels :: "nat list"
  index :: nat







text \<open>
  Modelled from the spec: the Page Rasterizer (4.2). An image is passed through as the single
  page; page indices are the positions in the sequence, from 0.
\<close>

fun number :: "nat \<Rightarrow> (nat list option) list \<Rightarrow> (nat \<times> PageImage option) list" where
  "number i [] = []"
| "number i (p # ps) =
     (i, map_option (\<lambda>px. \<lparr>pixels = px, index = i\<rparr>) p) # number (Suc i) ps"







subsection \<open>Example inputs\<close>







section \<open>Properties of the browser client\<close>

subsection \<open>What the loading effect leaves alone\<close>

lemma setLoading_frame [simp]:
  "file_sel (setLoading b s) = file_sel s"
  "extractedText (setLoading b s) = extractedText s"
  "toast (setLoading b s) = toast s"
  "alerts (setLoading b s) = alerts s"
  "sent (setLoading b s) = sent s"
  "console (setLoading b s) = console s"
  "isDragging (setLoading b s) = isDragging s"
  "loading (setLoading b s) = b"
  by (simp_all add: setLoading_def loading_effect_def)

lemma setLoading_progress:
  "loading s \<noteq> b \<Longrightarrow> progress (setLoading b s) = (if b then 0 else 100)"
  "loading s \<noteq> b \<Longrightarrow> interval (setLoading b s) = (if b then Some 500 else None)"
  by (simp_all add: setLoading_def loading_effect_def)

subsection \<open>Only files of a valid type are selected or sent\<close>

lemma typed_validateAndSetFile: "typed s \<Longrightarrow> typed (validateAndSetFile f s)"
  by (auto simp: typed_def submitted_def validateAndSetFile_def)

lemma typed_pasteLoop: "typed s \<Longrightarrow> typed (pasteLoop now items s)"
  by (induction items) (auto split: option.splits simp: typed_validateAndSetFile)

lemma typed_performOCR_begin: "typed s \<Longrightarrow> typed (performOCR_begin env s)"
  by (auto simp: typed_def submitted_def performOCR_begin_def split: option.splits)

lemma typed_performOCR_settle: "typed s \<Longrightarrow> typed (performOCR_settle outcome s)"
  by (auto simp: typed_def submitted_def performOCR_settle_def catchError_def
      split: fetch_outcome.splits response_body.splits)

lemma step_typed:
  assumes "typed s"
  shows "typed (step env ev s)"
proof (cases ev)
  case (Drop files)
  from assms have "typed (s\<lparr>isDragging := False\<rparr>)"
    by (simp add: typed_def submitted_def)
  with Drop show ?thesis
    by (cases files) (simp_all add: handleDrop_def typed_validateAndSetFile)
next
  case (FileSelect files)
  with assms show ?thesis
    by (auto simp: handleFileSelect_def typed_validateAndSetFile
        split: option.splits list.splits)
next
  case (Paste now items)
  with assms show ?thesis
    by (cases items) (simp_all add: handlePaste_def typed_pasteLoop)
next
  case ClickExtract
  with assms show ?thesis by (simp add: typed_performOCR_begin)
next
  case (FetchSettled outcome)
  with assms show ?thesis by (simp add: typed_performOCR_settle)
qed (use assms in \<open>auto simp: typed_def submitted_def handleDragOver_def handleDragLeave_def
       tick_def reset_def copyToClipboard_def toastTimeout_def\<close>)

lemma run_typed: "typed s \<Longrightarrow> typed (run env evs s)"
  by (induction evs arbitrary: s) (simp_all add: step_typed)

lemma typed_mounted: "typed mounted"
  by (simp add: typed_def submitted_def mounted_def initial_def loading_effect_def)

lemma never_submitted:
  "type f \<notin> set validTypes \<Longrightarrow> f \<notin> set (submitted (run env evs mounted))"
  using run_typed [OF typed_mounted, of env evs] by (auto simp: typed_def list_all_iff)

lemma validTypes_set:
  "set validTypes =
     {''image/png'', ''image/jpeg'', ''image/bmp'', ''image/tiff'', ''application/pdf''}"
  by (auto simp: validTypes_def)

text \<open>
  C2: a file whose declared media type is PNG, JPEG, BMP, TIFF or PDF becomes the selected
  file; a file of any other type is rejected with the unsupported-format alert, the selection
  stays as it was, and no request the component ever sends carries that file.
\<close>

theorem upload_validation:
  "(type f \<in> {''image/png'', ''image/jpeg'', ''image/bmp'', ''image/tiff'', ''application/pdf''}
      \<longrightarrow> file_sel (validateAndSetFile f s) = Some f) \<and>
   (type f \<notin> {''image/png'', ''image/jpeg'', ''image/bmp'', ''image/tiff'', ''application/pdf''}
      \<longrightarrow> file_sel (validateAndSetFile f s) = file_sel s \<and>
          alerts (validateAndSetFile f s) = alerts s @ [UnsupportedFileType] \<and>
          (\<forall>env evs. f \<notin> set (submitted (run env evs mounted))))"
  unfolding validTypes_set [symmetric]
  using never_submitted [of f] by (simp add: validateAndSetFile_def)

theorem upload_validation_witness:
  "file_sel (validateAndSetFile examplePdf mounted) = Some examplePdf \<and>
   file_sel (validateAndSetFile exampleExe (validateAndSetFile examplePdf mounted))
     = Some examplePdf \<and>
   alerts (validateAndSetFile exampleExe (validateAndSetFile examplePdf mounted))
     = [UnsupportedFileType] \<and>
   exampleExe \<notin> set (submitted (run None
      [FileSelect (Some [examplePdf]), Drop [exampleExe], ClickExtract,
       FetchSettled (Response 200 (JsonObject [''text'' \<mapsto> ''Hello''])),
       Paste 1730000000123 (Some [\<lparr>item_type = ''image/gif'', getAsFile = Some exampleGif\<rparr>]),
       ClickExtract] mounted)) \<and>
   submitted (run None
      [FileSelect (Some [examplePdf]), Drop [exampleExe], ClickExtract,
       FetchSettled (Response 200 (JsonObject [''text'' \<mapsto> ''Hello''])),
       Paste 1730000000123 (Some [\<lparr>item_type = ''image/gif'', getAsFile = Some exampleGif\<rparr>]),
       ClickExtract] mounted) = [examplePdf, examplePdf]"
  using upload_validation [of examplePdf mounted]
    upload_validation [of exampleExe "validateAndSetFile examplePdf mounted"]
  by (simp add: examplePdf_def exampleExe_def exampleGif_def validateAndSetFile_def
      mounted_def initial_def loading_effect_def submitted_def handleFileSelect_def
      handleDrop_def performOCR_begin_def performOCR_settle_def setLoading_def ok_def
      handlePaste_def indexOf_def pastedFile_def apiUrl_def validTypes_def)

text \<open>
  C9: an accepted file also resets the extracted text to the empty string; a rejected file
  changes neither the selected file nor the extracted text: the state differs only by the
  alert.
\<close>

theorem validateAndSetFile_frame:
  "(type f \<in> set validTypes \<longrightarrow>
      file_sel (validateAndSetFile f s) = Some f \<and>
      extractedText (validateAndSetFile f s) = Some []) \<and>
   (type f \<notin> set validTypes \<longrightarrow>
      file_sel (validateAndSetFile f s) = file_sel s \<and>
      extractedText (validateAndSetFile f s) = extractedText s \<and>
      validateAndSetFile f s = s\<lparr>alerts := alerts s @ [UnsupportedFileType]\<rparr>)"
  by (simp add: validateAndSetFile_def)

theorem validateAndSetFile_frame_witness:
  "file_sel (validateAndSetFile examplePdf exampleDone) = Some examplePdf \<and>
   extractedText (validateAndSetFile examplePdf exampleDone) = Some [] \<and>
   file_sel (validateAndSetFile exampleExe exampleDone) = file_sel exampleDone \<and>
   extractedText (validateAndSetFile exampleExe exampleDone) = Some ''Hello'' \<and>
   alerts (validateAndSetFile exampleExe exampleDone) = [UnsupportedFileType]"
  using validateAndSetFile_frame [of examplePdf exampleDone]
    validateAndSetFile_frame [of exampleExe exampleDone]
  by (simp add: examplePdf_def exampleExe_def exampleDone_def examplePng_def validTypes_def
      mounted_def initial_def loading_effect_def)

subsection \<open>The extraction call\<close>

lemma performOCR_begin_frame [simp]:
  "file_sel (performOCR_begin env s) = file_sel s"
  "extractedText (performOCR_begin env s) = extractedText s"
  "toast (performOCR_begin env s) = toast s"
  "console (performOCR_begin env s) = console s"
  "alerts (performOCR_begin env s) = alerts s"
  by (simp_all add: performOCR_begin_def split: option.splits)

lemma performOCR_begin_loading [simp]:
  "file_sel s = Some f \<Longrightarrow> loading (performOCR_begin env s)"
  by (simp add: performOCR_begin_def)

lemma performOCR_settle_sent [simp]:
  "sent (performOCR_settle outcome s) = sent s"
  by (simp add: performOCR_settle_def catchError_def
      split: fetch_outcome.splits response_body.splits)

lemma performOCR_settle_loading [simp]:
  "\<not> loading (performOCR_settle outcome s)"
  by (simp add: performOCR_settle_def)

text \<open>
  C3: on a successful response, \<open>performOCR\<close> sets the extracted text to exactly the
  \<open>text\<close> field of the JSON body, the empty string included; it raises no error: the toast
  and the console are as they were.
\<close>

theorem performOCR_success:
  "file_sel s = Some f \<and> ok st \<longrightarrow>
     extractedText (performOCR env (Response st (JsonObject data)) s) = data ''text'' \<and>
     toast (performOCR env (Response st (JsonObject data)) s) = toast s \<and>
     console (performOCR env (Response st (JsonObject data)) s) = console s \<and>
     alerts (performOCR env (Response st (JsonObject data)) s) = alerts s"
  by (simp add: performOCR_def performOCR_settle_def)

theorem performOCR_success_witness:
  "extractedText (performOCR None (Response 200 (JsonObject [''text'' \<mapsto> ''''])) exampleDone)
     = Some '''' \<and>
   toast (performOCR None (Response 200 (JsonObject [''text'' \<mapsto> ''''])) exampleDone) = None \<and>
   console (performOCR None (Response 200 (JsonObject [''text'' \<mapsto> ''''])) exampleDone) = [] \<and>
   extractedText (performOCR None (Response 200 (JsonObject [''text'' \<mapsto> ''Hello''])) exampleSelected)
     = Some ''Hello''"
  using performOCR_success [of exampleDone examplePng 200 None "[''text'' \<mapsto> '''']"]
    performOCR_success [of exampleSelected examplePng 200 None "[''text'' \<mapsto> ''Hello'']"]
  by (simp add: exampleDone_def exampleSelected_def ok_def mounted_def initial_def
      loading_effect_def)

text \<open>
  C4, as stated, fails: the responses for an unsupported format, a corrupt document and an
  internal failure leave the component in one and the same state, with one and the same
  toast; the component shows no category.
\<close>

theorem performOCR_error_categories_counterexample:
  "performOCR None (Response 400 (JsonObject [''error'' \<mapsto> ''UnsupportedFormat'']))
       exampleSelected
     = performOCR None (Response 400 (JsonObject [''error'' \<mapsto> ''CorruptDocument'']))
         exampleSelected \<and>
   performOCR None (Response 400 (JsonObject [''error'' \<mapsto> ''CorruptDocument'']))
       exampleSelected
     = performOCR None (Response 500 (JsonObject [''error'' \<mapsto> ''InternalError'']))
         exampleSelected \<and>
   toast (performOCR None (Response 500 (JsonObject [''error'' \<mapsto> ''InternalError'']))
       exampleSelected)
     = Some \<lparr>message = ExtractionFailed, toast_type = error\<rparr>"
  by (simp add: performOCR_def performOCR_settle_def catchError_def ok_def
      exampleSelected_def)

text \<open>
  C4, amended: every failed extraction call (network error, a status that is not a success,
  or a body that cannot be read) shows the same generic error toast, whatever the category
  of the error, and leaves the extracted text as it was.
\<close>

theorem performOCR_failure:
  "file_sel s = Some f \<and> failedCall outcome \<longrightarrow>
     extractedText (performOCR env outcome s) = extractedText s \<and>
     toast (performOCR env outcome s) = Some \<lparr>message = ExtractionFailed, toast_type = error\<rparr>"
  by (cases outcome)
    (auto simp: performOCR_def performOCR_settle_def catchError_def
      split: response_body.splits)

theorem performOCR_failure_witness:
  "extractedText (performOCR None NetworkError exampleDone) = Some ''Hello'' \<and>
   toast (performOCR None NetworkError exampleDone)
     = Some \<lparr>message = ExtractionFailed, toast_type = error\<rparr> \<and>
   extractedText (performOCR None (Response 500 NotJson) exampleDone) = Some ''Hello'' \<and>
   toast (performOCR None (Response 500 NotJson) exampleDone)
     = Some \<lparr>message = ExtractionFailed, toast_type = error\<rparr>"
  using performOCR_failure [of exampleDone examplePng NetworkError None]
    performOCR_failure [of exampleDone examplePng "Response 500 NotJson" None]
  by (simp add: exampleDone_def ok_def)

lemma validateAndSetFile_sent [simp]: "sent (validateAndSetFile f s) = sent s"
  by (simp add: validateAndSetFile_def)

lemma pasteLoop_sent [simp]: "sent (pasteLoop now items s) = sent s"
  by (induction items) (simp_all split: option.splits)

lemma step_sent:
  "sent (step env ev s) =
     (case (ev, file_sel s) of
        (ClickExtract, Some f) \<Rightarrow>
          if loading s then sent s
          else sent s @ [\<lparr>httpMethod = ''POST'', url = apiUrl env @ ''/extract-text'',
                 formData = [(''file'', f)]\<rparr>]
      | _ \<Rightarrow> sent s)"
proof (cases ev)
  case (Drop files)
  then show ?thesis by (cases files) (simp_all add: handleDrop_def)
next
  case (FileSelect files)
  then show ?thesis
    by (simp add: handleFileSelect_def split: option.splits list.splits)
next
  case (Paste now items)
  then show ?thesis by (cases items) (simp_all add: handlePaste_def)
next
  case ClickExtract
  then show ?thesis by (simp add: performOCR_begin_def split: option.splits)
qed (simp_all add: handleDragOver_def handleDragLeave_def tick_def reset_def
      copyToClipboard_def toastTimeout_def split: option.splits)

lemma step_extractRequest:
  "list_all (extractRequest env) (sent s) \<Longrightarrow>
     list_all (extractRequest env) (sent (step env ev s))"
  by (simp add: step_sent extractRequest_def split: event.splits option.splits)

lemma run_extractRequest:
  "list_all (extractRequest env) (sent s) \<Longrightarrow>
     list_all (extractRequest env) (sent (run env evs s))"
  by (induction evs arbitrary: s) (simp_all add: step_extractRequest del: step.simps)

text \<open>
  C5: a call of \<open>performOCR\<close> with a file selected sends exactly one request: a POST to
  \<open>/extract-text\<close> under the API's URL, whose form data is the one entry \<open>file\<close> holding
  the selected file; without a file it does nothing at all. These are the only requests the
  component ever sends.
\<close>

theorem performOCR_single_request:
  "(file_sel s = Some f \<longrightarrow>
      sent (performOCR env outcome s) = sent s @
        [\<lparr>httpMethod = ''POST'', url = apiUrl env @ ''/extract-text'',
          formData = [(''file'', f)]\<rparr>] \<and>
      sent (performOCR_begin env s) = sent (performOCR env outcome s)) \<and>
   (file_sel s = None \<longrightarrow>
      performOCR env outcome s = s \<and> performOCR_begin env s = s) \<and>
   list_all (extractRequest env) (sent (run env evs mounted))"
proof -
  have "list_all (extractRequest env) (sent mounted)"
    by (simp add: mounted_def initial_def loading_effect_def)
  then have "list_all (extractRequest env) (sent (run env evs mounted))"
    by (rule run_extractRequest)
  then show ?thesis
    by (simp add: performOCR_def performOCR_begin_def)
qed

theorem performOCR_single_request_witness:
  "sent (performOCR None (Response 200 (JsonObject [''text'' \<mapsto> ''Hello''])) exampleSelected)
     = [\<lparr>httpMethod = ''POST'', url = ''http://localhost:8000/extract-text'',
         formData = [(''file'', examplePng)]\<rparr>] \<and>
   sent (performOCR (Some ''https://ocr.example'') NetworkError exampleSelected)
     = [\<lparr>httpMethod = ''POST'', url = ''https://ocr.example/extract-text'',
         formData = [(''file'', examplePng)]\<rparr>] \<and>
   performOCR None (Response 200 (JsonObject [''text'' \<mapsto> ''Hello''])) mounted = mounted"
  using performOCR_single_request [of exampleSelected examplePng None
      "Response 200 (JsonObject [''text'' \<mapsto> ''Hello''])" "[]"]
    performOCR_single_request [of exampleSelected examplePng "Some ''https://ocr.example''"
      NetworkError "[]"]
    performOCR_single_request [of mounted examplePng None
      "Response 200 (JsonObject [''text'' \<mapsto> ''Hello''])" "[]"]
  by (simp add: exampleSelected_def mounted_def initial_def loading_effect_def apiUrl_def)

subsection \<open>The progress animation\<close>

lemma random_step:
  fixes r :: real
  assumes "0 \<le> r" "r < 1"
  shows "0 \<le> \<lfloor>r * 10\<rfloor>" "\<lfloor>r * 10\<rfloor> \<le> 9"
proof -
  from assms show "0 \<le> \<lfloor>r * 10\<rfloor>" by simp
  from assms have "r * 10 < 10" by simp
  then have "\<lfloor>r * 10\<rfloor> < 10" by (simp add: floor_less_iff)
  then show "\<lfloor>r * 10\<rfloor> \<le> 9" by simp
qed

lemma nextProgress_below:
  assumes "0 \<le> r" "r < 1" "prev < 95"
  shows "prev + 1 \<le> nextProgress r prev" "nextProgress r prev \<le> prev + 10"
  using random_step [OF assms(1,2)] assms(3) by (simp_all add: nextProgress_def)

lemma nextProgress_fixed: "95 \<le> prev \<Longrightarrow> nextProgress r prev = prev"
  by (simp add: nextProgress_def)

lemma nextProgress_range:
  assumes "0 \<le> r" "r < 1" "0 \<le> prev" "prev \<le> 104"
  shows "0 \<le> nextProgress r prev \<and> nextProgress r prev \<le> 104"
proof (cases "prev < 95")
  case True
  with nextProgress_below [OF assms(1,2) True] assms(3) show ?thesis by simp
next
  case False
  with assms(3,4) show ?thesis by (simp add: nextProgress_fixed)
qed

lemma ticks_range:
  "\<forall>r \<in> set rs. 0 \<le> r \<and> r < 1 \<Longrightarrow> 0 \<le> p \<Longrightarrow> p \<le> 104 \<Longrightarrow>
     0 \<le> ticks rs p \<and> ticks rs p \<le> 104"
proof (induction rs arbitrary: p)
  case Nil
  then show ?case by simp
next
  case (Cons r rs)
  from Cons.prems have "0 \<le> nextProgress r p \<and> nextProgress r p \<le> 104"
    by (intro nextProgress_range) simp_all
  with Cons.IH [of "nextProgress r p"] Cons.prems(1) show ?case by simp
qed

lemma ticks_fixed: "95 \<le> p \<Longrightarrow> ticks rs p = p"
  by (induction rs) (simp_all add: nextProgress_fixed)

lemma ticks_append: "ticks (rs @ rs') p = ticks rs' (ticks rs p)"
  by (induction rs arbitrary: p) simp_all

lemma run_timer:
  "interval s \<noteq> None \<Longrightarrow>
     run env (map TimerFires rs) s = s\<lparr>progress := ticks rs (progress s)\<rparr>"
  by (induction rs arbitrary: s) (auto simp: tick_def)

lemma run_timer_off: "interval s = None \<Longrightarrow> run env (map TimerFires rs) s = s"
  by (induction rs) (simp_all add: tick_def)

lemma performOCR_begin_progress:
  "file_sel s = Some f \<Longrightarrow> \<not> loading s \<Longrightarrow>
     progress (performOCR_begin env s) = 0 \<and> interval (performOCR_begin env s) = Some 500"
  by (simp add: performOCR_begin_def setLoading_def loading_effect_def)

lemma performOCR_settle_progress:
  "loading s \<Longrightarrow>
     progress (performOCR_settle outcome s) = 100 \<and>
     interval (performOCR_settle outcome s) = None"
  by (simp add: performOCR_settle_def setLoading_def loading_effect_def catchError_def
      split: fetch_outcome.splits response_body.splits)

text \<open>The ticks that bring the progress from 0 to a given value between 95 and 104.\<close>

lemma ticks_reach:
  assumes "95 \<le> v" "v \<le> 104"
  shows "ticks (replicate 9 (9 / 10) @ [3 / 10, real_of_int (v - 95) / 10]) 0 = v"
proof -
  have "ticks (replicate 9 (9 / 10)) 0 = 90"
    by (simp add: numeral_eq_Suc nextProgress_def)
  moreover have "real_of_int (v - 95) / 10 * 10 = real_of_int (v - 95)"
    by simp
  then have "nextProgress (real_of_int (v - 95) / 10) 94 = v"
    unfolding nextProgress_def by (simp only: floor_of_int) simp
  then have "ticks [3 / 10, real_of_int (v - 95) / 10] 90 = v"
    by (simp add: nextProgress_def)
  ultimately show ?thesis by (simp only: ticks_append)
qed

text \<open>
  C6: the percentage is driven by the timer alone. When a call starts loading, the progress
  is set to 0 and a timer of 500 ms is set; a tick of the timer adds between 1 and 10 when
  the value is below 95 and nothing otherwise; when the call settles, whatever its outcome,
  the progress is set to 100 and the timer is cleared.
\<close>

theorem progress_is_simulated:
  "(file_sel s = Some f \<and> \<not> loading s \<longrightarrow>
      progress (performOCR_begin env s) = 0 \<and> interval (performOCR_begin env s) = Some 500) \<and>
   (interval s \<noteq> None \<and> 0 \<le> r \<and> r < 1 \<and> progress s < 95 \<longrightarrow>
      progress s + 1 \<le> progress (tick r s) \<and> progress (tick r s) \<le> progress s + 10) \<and>
   (95 \<le> progress s \<longrightarrow> tick r s = s) \<and>
   (loading s \<longrightarrow>
      progress (performOCR_settle outcome s) = 100 \<and>
      interval (performOCR_settle outcome s) = None \<and>
      \<not> loading (performOCR_settle outcome s))"
  using performOCR_begin_progress [of s f env] performOCR_settle_progress [of s outcome]
    nextProgress_below [of r "progress s"]
  by (auto simp: tick_def nextProgress_fixed performOCR_settle_def)

theorem progress_is_simulated_witness:
  "progress (performOCR_begin None exampleDone) = 0 \<and>
   interval (performOCR_begin None exampleDone) = Some 500 \<and>
   progress (tick (37 / 100) (performOCR_begin None exampleDone)) = 4 \<and>
   tick (37 / 100) (exampleLoading\<lparr>progress := 97\<rparr>) = exampleLoading\<lparr>progress := 97\<rparr> \<and>
   progress (performOCR_settle NetworkError (exampleLoading\<lparr>progress := 42\<rparr>)) = 100 \<and>
   progress (performOCR_settle (Response 200 (JsonObject [''text'' \<mapsto> ''Hello'']))
      (exampleLoading\<lparr>progress := 42\<rparr>)) = 100"
  using progress_is_simulated [of exampleDone examplePng None "37 / 100" NetworkError]
    progress_is_simulated [of "performOCR_begin None exampleDone" examplePng None "37 / 100"
       NetworkError]
    progress_is_simulated [of "exampleLoading\<lparr>progress := 97\<rparr>" examplePng None "37 / 100"
       NetworkError]
    progress_is_simulated [of "exampleLoading\<lparr>progress := 42\<rparr>" examplePng None "37 / 100"
       NetworkError]
    progress_is_simulated [of "exampleLoading\<lparr>progress := 42\<rparr>" examplePng None "37 / 100"
       "Response 200 (JsonObject [''text'' \<mapsto> ''Hello''])"]
  by (simp add: exampleDone_def exampleLoading_def exampleSelected_def mounted_def initial_def
      loading_effect_def performOCR_begin_def setLoading_def tick_def nextProgress_def)

text \<open>The progress stays between 0 and 104 whatever happens to the component.\<close>

lemma validateAndSetFile_progress [simp]:
  "progress (validateAndSetFile f s) = progress s"
  by (simp add: validateAndSetFile_def)

lemma pasteLoop_progress [simp]: "progress (pasteLoop now items s) = progress s"
  by (induction items) (simp_all split: option.splits)

lemma setLoading_range:
  "0 \<le> progress s \<and> progress s \<le> 104 \<Longrightarrow>
     0 \<le> progress (setLoading b s) \<and> progress (setLoading b s) \<le> 104"
  by (simp add: setLoading_def loading_effect_def)

lemma step_range:
  assumes "possible ev" and "0 \<le> progress s \<and> progress s \<le> 104"
  shows "0 \<le> progress (step env ev s) \<and> progress (step env ev s) \<le> 104"
proof (cases ev)
  case (Drop files)
  with assms(2) show ?thesis by (cases files) (simp_all add: handleDrop_def)
next
  case (FileSelect files)
  with assms(2) show ?thesis
    by (simp add: handleFileSelect_def split: option.splits list.splits)
next
  case (Paste now items)
  with assms(2) show ?thesis by (cases items) (simp_all add: handlePaste_def)
next
  case ClickExtract
  with assms(2) setLoading_range [of s True] show ?thesis
    by (simp add: performOCR_begin_def split: option.splits)
next
  case (FetchSettled outcome)
  have "progress (case outcome of
          NetworkError \<Rightarrow> catchError FetchRejected s
        | Response st b \<Rightarrow>
            if \<not> ok st then catchError OcrRequestFailed s
            else (case b of
                    NotJson \<Rightarrow> catchError JsonRejected s
                  | JsonNull \<Rightarrow> catchError TypeError s
                  | JsonObject data \<Rightarrow> s\<lparr>extractedText := data ''text''\<rparr>)) = progress s"
    by (simp add: catchError_def split: fetch_outcome.splits response_body.splits)
  with assms(2) FetchSettled show ?thesis
    by (simp add: performOCR_settle_def setLoading_range)
next
  case (TimerFires r)
  with assms nextProgress_range [of r "progress s"] show ?thesis
    by (simp add: tick_def)
qed (use assms(2) in \<open>simp_all add: handleDragOver_def handleDragLeave_def reset_def
      copyToClipboard_def toastTimeout_def\<close>)

lemma run_range:
  "list_all possible evs \<Longrightarrow> 0 \<le> progress s \<and> progress s \<le> 104 \<Longrightarrow>
     0 \<le> progress (run env evs s) \<and> progress (run env evs s) \<le> 104"
proof (induction evs arbitrary: s)
  case Nil
  then show ?case by simp
next
  case (Cons ev evs)
  from Cons.prems have "0 \<le> progress (step env ev s) \<and> progress (step env ev s) \<le> 104"
    by (intro step_range) simp_all
  with Cons.IH [of "step env ev s"] Cons.prems(1) show ?case by simp
qed

lemma mounted_range: "0 \<le> progress mounted \<and> progress mounted \<le> 104"
  by (simp add: mounted_def initial_def loading_effect_def)

text \<open>
  C8: from the start of loading, no sequence of ticks takes the progress above 104, and
  neither does any other sequence of events of the mounted component; every value from 95
  to 104 is reached by some sequence of ticks; from 95 on the ticks leave the value fixed;
  and the end of loading sets it to 100.
\<close>

theorem progress_at_most_104:
  "(file_sel s = Some f \<and> \<not> loading s \<and> (\<forall>r \<in> set rs. 0 \<le> r \<and> r < 1) \<longrightarrow>
      0 \<le> progress (run env (map TimerFires rs) (performOCR_begin env s)) \<and>
      progress (run env (map TimerFires rs) (performOCR_begin env s)) \<le> 104) \<and>
   (file_sel s = Some f \<and> \<not> loading s \<and> 95 \<le> v \<and> v \<le> 104 \<longrightarrow>
      (\<exists>rs. (\<forall>r \<in> set rs. 0 \<le> r \<and> r < 1) \<and>
         progress (run env (map TimerFires rs) (performOCR_begin env s)) = v)) \<and>
   (95 \<le> progress s \<longrightarrow> run env (map TimerFires rs) s = s) \<and>
   (loading s \<longrightarrow> progress (performOCR_settle outcome s) = 100) \<and>
   (list_all possible evs \<longrightarrow>
      0 \<le> progress (run env evs mounted) \<and> progress (run env evs mounted) \<le> 104)"
proof (intro conjI impI)
  assume a: "file_sel s = Some f \<and> \<not> loading s \<and> (\<forall>r \<in> set rs. 0 \<le> r \<and> r < 1)"
  then have b: "progress (performOCR_begin env s) = 0"
    "interval (performOCR_begin env s) \<noteq> None"
    using performOCR_begin_progress [of s f env] by simp_all
  from a have "0 \<le> ticks rs 0 \<and> ticks rs 0 \<le> 104"
    by (intro ticks_range) simp_all
  with b show "0 \<le> progress (run env (map TimerFires rs) (performOCR_begin env s))"
    and "progress (run env (map TimerFires rs) (performOCR_begin env s)) \<le> 104"
    by (simp_all add: run_timer)
next
  assume a: "file_sel s = Some f \<and> \<not> loading s \<and> 95 \<le> v \<and> v \<le> 104"
  then have b: "progress (performOCR_begin env s) = 0"
    "interval (performOCR_begin env s) \<noteq> None"
    using performOCR_begin_progress [of s f env] by simp_all
  let ?rs = "replicate 9 (9 / 10) @ [3 / 10, real_of_int (v - 95) / 10]"
  from a have "\<forall>r \<in> set ?rs. 0 \<le> r \<and> r < 1" by auto
  moreover from a b have "progress (run env (map TimerFires ?rs) (performOCR_begin env s)) = v"
    using run_timer [of "performOCR_begin env s" env ?rs] ticks_reach [of v] by simp
  ultimately show "\<exists>rs. (\<forall>r \<in> set rs. 0 \<le> r \<and> r < 1) \<and>
      progress (run env (map TimerFires rs) (performOCR_begin env s)) = v"
    by blast
next
  assume "95 \<le> progress s"
  then show "run env (map TimerFires rs) s = s"
    by (cases "interval s = None") (simp_all add: run_timer run_timer_off ticks_fixed)
next
  assume "loading s"
  then show "progress (performOCR_settle outcome s) = 100"
    by (simp add: performOCR_settle_progress)
next
  assume "list_all possible evs"
  then show "0 \<le> progress (run env evs mounted)" and "progress (run env evs mounted) \<le> 104"
    using run_range [of evs mounted env] mounted_range by simp_all
qed

theorem progress_at_most_104_witness:
  "progress (run None (map TimerFires (replicate 9 (9 / 10) @ [3 / 10, 9 / 10, 1 / 2]))
      (performOCR_begin None exampleSelected)) = 104 \<and>
   (\<exists>rs. list_all (\<lambda>r. 0 \<le> r \<and> r < 1) rs \<and>
      progress (run None (map TimerFires rs) (performOCR_begin None exampleSelected)) = 95) \<and>
   run None (map TimerFires [1 / 2, 9 / 10]) (exampleLoading\<lparr>progress := 104\<rparr>)
     = exampleLoading\<lparr>progress := 104\<rparr> \<and>
   progress (performOCR_settle NetworkError (exampleLoading\<lparr>progress := 104\<rparr>)) = 100 \<and>
   progress (run None
      [FileSelect (Some [examplePng]), ClickExtract, TimerFires (9 / 10), DragOver,
       TimerFires (1 / 2)] mounted) = 16"
proof -
  have sel: "file_sel exampleSelected = Some examplePng \<and> \<not> loading exampleSelected"
    by (simp add: exampleSelected_def mounted_def initial_def loading_effect_def)
  note w = progress_at_most_104 [of exampleSelected examplePng
      "replicate 9 (9 / 10) @ [3 / 10, 9 / 10, 1 / 2]" None 95]
  have "progress (run None (map TimerFires (replicate 9 (9 / 10) @ [3 / 10, 9 / 10, 1 / 2]))
      (performOCR_begin None exampleSelected)) = 104"
    by (simp add: exampleSelected_def mounted_def initial_def loading_effect_def
        performOCR_begin_def setLoading_def tick_def nextProgress_def numeral_eq_Suc)
  moreover from w sel have "\<exists>rs. list_all (\<lambda>r. 0 \<le> r \<and> r < 1) rs \<and>
      progress (run None (map TimerFires rs) (performOCR_begin None exampleSelected)) = 95"
    by (simp add: list_all_iff)
  moreover have "run None (map TimerFires [1 / 2, 9 / 10]) (exampleLoading\<lparr>progress := 104\<rparr>)
     = exampleLoading\<lparr>progress := 104\<rparr>"
    using progress_at_most_104 [of "exampleLoading\<lparr>progress := 104\<rparr>" examplePng
        "[1 / 2, 9 / 10]" None 95]
    by simp
  moreover have
    "progress (performOCR_settle NetworkError (exampleLoading\<lparr>progress := 104\<rparr>)) = 100"
    using progress_at_most_104 [of "exampleLoading\<lparr>progress := 104\<rparr>" examplePng
        "[1 / 2, 9 / 10]" None 95 NetworkError]
    by (simp add: exampleLoading_def exampleSelected_def performOCR_begin_def setLoading_def
        mounted_def initial_def loading_effect_def)
  moreover have "progress (run None
      [FileSelect (Some [examplePng]), ClickExtract, TimerFires (9 / 10), DragOver,
       TimerFires (1 / 2)] mounted) = 16"
    using progress_at_most_104 [of exampleSelected examplePng "[]" None 95 NetworkError
        "[FileSelect (Some [examplePng]), ClickExtract, TimerFires (9 / 10), DragOver,
          TimerFires (1 / 2)]"]
    by (simp add: handleFileSelect_def validateAndSetFile_def validTypes_def examplePng_def
        performOCR_begin_def setLoading_def loading_effect_def mounted_def initial_def
        tick_def nextProgress_def handleDragOver_def)
  ultimately show ?thesis by blast
qed

subsection \<open>Pasting\<close>

lemma pasteLoop_skip:
  "list_all skipped pre \<Longrightarrow> pasteLoop now (pre @ items) s = pasteLoop now items s"
  by (induction pre) (auto simp: skipped_def)

lemma pasteLoop_none: "list_all skipped items \<Longrightarrow> pasteLoop now items s = s"
  using pasteLoop_skip [of items now "[]" s] by simp

lemma pasteLoop_take:
  "\<not> skipped it \<Longrightarrow> getAsFile it = Some b \<Longrightarrow>
     pasteLoop now (it # post) s = validateAndSetFile (pastedFile now b) s"
  by (simp add: skipped_def)

text \<open>
  C10, as stated, fails: when the first item with an image type carries no file, the handler
  goes on and uses a later item.
\<close>

theorem handlePaste_first_image_counterexample:
  "handlePaste 1730000000123 (Some [exampleSvgText, examplePngItem]) mounted
     \<noteq> handlePaste_firstImageOnly 1730000000123 (Some [exampleSvgText, examplePngItem]) mounted \<and>
   handlePaste_firstImageOnly 1730000000123 (Some [exampleSvgText, examplePngItem]) mounted
     = mounted \<and>
   file_sel (handlePaste 1730000000123 (Some [exampleSvgText, examplePngItem]) mounted)
     = Some \<lparr>name = ''pasted_image_1730000000123.png'', type = ''image/png'',
         bytes = [137, 80, 78, 71]\<rparr>"
proof -
  have d: "digits 1730000000123 = ''1730000000123''"
    by (simp add: digits.simps)
  have a: "handlePaste_firstImageOnly 1730000000123 (Some [exampleSvgText, examplePngItem])
      mounted = mounted"
    by (simp add: handlePaste_firstImageOnly_def exampleSvgText_def indexOf_def)
  have b: "file_sel (handlePaste 1730000000123 (Some [exampleSvgText, examplePngItem]) mounted)
     = Some \<lparr>name = ''pasted_image_1730000000123.png'', type = ''image/png'',
         bytes = [137, 80, 78, 71]\<rparr>"
    by (simp add: handlePaste_def exampleSvgText_def examplePngItem_def examplePngBlob_def
        indexOf_def pastedFile_def numberToString_def d validateAndSetFile_def validTypes_def)
  have c: "file_sel mounted = None"
    by (simp add: mounted_def initial_def loading_effect_def)
  from a b c show ?thesis by auto
qed

text \<open>
  C10, amended: the paste handler uses only the first item whose type contains \<open>image\<close>
  and whose \<open>getAsFile()\<close> gives a file; items before it are passed over and items after
  it are ignored. It wraps that blob in a file named \<open>pasted_image_<timestamp>.png\<close> with
  the blob's own MIME type, so that the file is accepted when that type is a valid one and
  rejected otherwise, whatever the name says. Without such an item, and without clipboard
  items at all, nothing changes.
\<close>

theorem handlePaste_first_image_file:
  "(list_all skipped pre \<and> indexOf (item_type it) ''image'' \<noteq> - 1 \<and> getAsFile it = Some b \<longrightarrow>
      handlePaste now (Some (pre @ it # post)) s
        = validateAndSetFile
            \<lparr>name = ''pasted_image_'' @ numberToString now @ ''.png'',
             type = blob_type b, bytes = blob_bytes b\<rparr> s \<and>
      (blob_type b \<in> set validTypes \<longrightarrow>
         file_sel (handlePaste now (Some (pre @ it # post)) s)
           = Some \<lparr>name = ''pasted_image_'' @ numberToString now @ ''.png'',
               type = blob_type b, bytes = blob_bytes b\<rparr>) \<and>
      (blob_type b \<notin> set validTypes \<longrightarrow>
         handlePaste now (Some (pre @ it # post)) s
           = s\<lparr>alerts := alerts s @ [UnsupportedFileType]\<rparr>)) \<and>
   (list_all skipped items \<longrightarrow> handlePaste now (Some items) s = s) \<and>
   handlePaste now None s = s"
proof (intro conjI impI)
  assume a: "list_all skipped pre \<and> indexOf (item_type it) ''image'' \<noteq> - 1 \<and>
    getAsFile it = Some b"
  then have "\<not> skipped it" by (simp add: skipped_def)
  with a have *: "handlePaste now (Some (pre @ it # post)) s
      = validateAndSetFile (pastedFile now b) s"
    by (simp add: handlePaste_def pasteLoop_skip pasteLoop_take del: pasteLoop.simps)
  then show "handlePaste now (Some (pre @ it # post)) s
      = validateAndSetFile
          \<lparr>name = ''pasted_image_'' @ numberToString now @ ''.png'',
           type = blob_type b, bytes = blob_bytes b\<rparr> s"
    by (simp add: pastedFile_def)
  {
    assume "blob_type b \<in> set validTypes"
    with * show "file_sel (handlePaste now (Some (pre @ it # post)) s)
        = Some \<lparr>name = ''pasted_image_'' @ numberToString now @ ''.png'',
            type = blob_type b, bytes = blob_bytes b\<rparr>"
      by (simp add: pastedFile_def validateAndSetFile_def)
  }
  {
    assume "blob_type b \<notin> set validTypes"
    with * show "handlePaste now (Some (pre @ it # post)) s
        = s\<lparr>alerts := alerts s @ [UnsupportedFileType]\<rparr>"
      by (simp add: pastedFile_def validateAndSetFile_def)
  }
next
  assume "list_all skipped items"
  then show "handlePaste now (Some items) s = s"
    by (simp add: handlePaste_def pasteLoop_none)
next
  show "handlePaste now None s = s"
    by (simp add: handlePaste_def)
qed

theorem handlePaste_first_image_file_witness:
  "file_sel (handlePaste 1730000000123
      (Some [exampleHtmlItem, exampleSvgText, examplePngItem, exampleGifItem]) mounted)
     = Some \<lparr>name = ''pasted_image_1730000000123.png'', type = ''image/png'',
         bytes = [137, 80, 78, 71]\<rparr> \<and>
   handlePaste 1730000000123
      (Some [exampleHtmlItem, exampleSvgText, exampleGifItem, examplePngItem]) mounted
     = mounted\<lparr>alerts := [UnsupportedFileType]\<rparr> \<and>
   handlePaste 1730000000123 (Some [exampleHtmlItem, exampleSvgText]) mounted = mounted"
proof -
  have d: "numberToString 1730000000123 = ''1730000000123''"
    by (simp add: numberToString_def digits.simps)
  have sk: "list_all skipped [exampleHtmlItem, exampleSvgText]"
    by (simp add: skipped_def exampleHtmlItem_def exampleSvgText_def indexOf_def)
  have png: "indexOf (item_type examplePngItem) ''image'' \<noteq> - 1 \<and>
      getAsFile examplePngItem = Some examplePngBlob \<and> blob_type examplePngBlob \<in> set validTypes"
    by (simp add: examplePngItem_def examplePngBlob_def indexOf_def validTypes_def)
  have gif: "indexOf (item_type exampleGifItem) ''image'' \<noteq> - 1 \<and>
      getAsFile exampleGifItem = Some exampleGif \<and> blob_type exampleGif \<notin> set validTypes"
    by (simp add: exampleGifItem_def exampleGif_def indexOf_def validTypes_def)
  have al: "alerts mounted = []"
    by (simp add: mounted_def initial_def loading_effect_def)
  from sk png d
    handlePaste_first_image_file [of "[exampleHtmlItem, exampleSvgText]" examplePngItem
      examplePngBlob 1730000000123 "[exampleGifItem]" mounted "[]"]
  have 1: "file_sel (handlePaste 1730000000123
      (Some [exampleHtmlItem, exampleSvgText, examplePngItem, exampleGifItem]) mounted)
     = Some \<lparr>name = ''pasted_image_1730000000123.png'', type = ''image/png'',
         bytes = [137, 80, 78, 71]\<rparr>"
    by (simp add: examplePngBlob_def validateAndSetFile_def)
  from sk gif al
    handlePaste_first_image_file [of "[exampleHtmlItem, exampleSvgText]" exampleGifItem
      exampleGif 1730000000123 "[examplePngItem]" mounted "[]"]
  have 2: "handlePaste 1730000000123
      (Some [exampleHtmlItem, exampleSvgText, exampleGifItem, examplePngItem]) mounted
     = mounted\<lparr>alerts := [UnsupportedFileType]\<rparr>"
    by (simp add: validateAndSetFile_def)
  from sk
    handlePaste_first_image_file [of "[]" examplePngItem examplePngBlob 1730000000123 "[]"
      mounted "[exampleHtmlItem, exampleSvgText]"]
  have 3: "handlePaste 1730000000123 (Some [exampleHtmlItem, exampleSvgText]) mounted = mounted"
    by simp
  from 1 2 3 show ?thesis by blast
qed

section \<open>Properties of the backend image\<close>

lemma requested_dockerfile:
  "requested dockerfile =
     [''tesseract-ocr'', ''tesseract-ocr-kor'', ''tesseract-ocr-eng'', ''libtesseract-dev'',
      ''poppler-utils'']"
  by (simp add: requested_def dockerfile_def)

lemma languagePacks_dockerfile: "languagePacks (requested dockerfile) = [''kor'', ''eng'']"
  unfolding requested_dockerfile
  by (simp add: languagePacks_def isLanguagePack_def languageCode_def)

text \<open>Whatever the dependencies, a language pack asked for by name is installed.\<close>

lemma installedPacks_requested:
  assumes "c \<in> set (languagePacks (requested df))"
  shows "c \<in> installedPacks depends df"
proof -
  from assms obtain p where p: "p \<in> set (requested df)" "isLanguagePack p" "c = languageCode p"
    by (auto simp: languagePacks_def)
  from p(1) have "p \<in> installed depends (requested df)"
    by (rule installed.asked)
  with p(2,3) show ?thesis
    by (auto simp: installedPacks_def)
qed

text \<open>With Debian's dependencies, the image holds the packages asked for and one more.\<close>

lemma installed_debian_osd:
  "''tesseract-ocr-osd'' \<in> installed debianDepends (requested dockerfile)"
proof -
  have "''tesseract-ocr'' \<in> installed debianDepends (requested dockerfile)"
    by (rule installed.asked) (simp add: requested_dockerfile)
  then show ?thesis
    by (rule installed.brought) (simp add: debianDepends_def)
qed

lemma debianDepends_cases:
  "d \<in> set (debianDepends p) \<Longrightarrow> d = ''tesseract-ocr-eng'' \<or> d = ''tesseract-ocr-osd''"
  by (simp add: debianDepends_def split: if_splits)

lemma installed_debian_only:
  assumes "p \<in> installed debianDepends (requested dockerfile)"
  shows "p \<in> set (requested dockerfile) \<or> p = ''tesseract-ocr-osd''"
  using assms
proof (induction rule: installed.induct)
  case (asked p)
  then show ?case by (rule disjI1)
next
  case (brought p d)
  have eng: "''tesseract-ocr-eng'' \<in> set (requested dockerfile)"
    by (simp add: requested_dockerfile)
  from debianDepends_cases [OF brought.hyps(2)] eng show ?case
    by blast
qed

lemma installedPacks_debian_osd: "''osd'' \<in> installedPacks debianDepends dockerfile"
proof -
  have "isLanguagePack ''tesseract-ocr-osd''"
    by (simp add: isLanguagePack_def)
  with installed_debian_osd
  have "languageCode ''tesseract-ocr-osd'' \<in> installedPacks debianDepends dockerfile"
    unfolding installedPacks_def by blast
  moreover have "languageCode ''tesseract-ocr-osd'' = ''osd''"
    by (simp add: languageCode_def)
  ultimately show ?thesis by (simp only:)
qed

lemma installedPacks_debian_only:
  assumes "c \<in> installedPacks debianDepends dockerfile"
  shows "c \<in> set (languagePacks (requested dockerfile)) \<or> c = ''osd''"
proof -
  from assms obtain p where p: "p \<in> installed debianDepends (requested dockerfile)"
      "isLanguagePack p" "c = languageCode p"
    unfolding installedPacks_def by blast
  from installed_debian_only [OF p(1)] show ?thesis
  proof
    assume "p \<in> set (requested dockerfile)"
    with p(2,3) have "c \<in> set (languagePacks (requested dockerfile))"
      by (simp add: languagePacks_def)
    then show ?thesis by (rule disjI1)
  next
    assume "p = ''tesseract-ocr-osd''"
    with p(3) have "c = ''osd''"
      by (simp add: languageCode_def)
    then show ?thesis by (rule disjI2)
  qed
qed

lemma installedPacks_debian:
  "installedPacks debianDepends dockerfile = {''kor'', ''eng'', ''osd''}"
proof (intro equalityI subsetI)
  fix c
  assume "c \<in> installedPacks debianDepends dockerfile"
  from installedPacks_debian_only [OF this]
  show "c \<in> {''kor'', ''eng'', ''osd''}"
    by (simp only: languagePacks_dockerfile) auto
next
  fix c
  assume "c \<in> {''kor'', ''eng'', ''osd''}"
  then have "c \<in> set (languagePacks (requested dockerfile)) \<or> c = ''osd''"
    by (simp only: languagePacks_dockerfile) auto
  then show "c \<in> installedPacks debianDepends dockerfile"
    using installedPacks_requested [of c dockerfile debianDepends] installedPacks_debian_osd
    by blast
qed

text \<open>
  C7, as stated, fails: on the Debian base image, installing \<open>tesseract-ocr\<close> brings the
  pack \<open>osd\<close> along, so that the installed language packs are Korean, English and
  \<open>osd\<close>, not exactly Korean and English.
\<close>

theorem image_language_packs_counterexample:
  "''osd'' \<in> installedPacks debianDepends dockerfile \<and>
   installedPacks debianDepends dockerfile = {''kor'', ''eng'', ''osd''} \<and>
   installedPacks debianDepends dockerfile \<noteq> set defaultLanguages"
proof -
  have "''osd'' \<notin> set defaultLanguages"
    by (simp add: defaultLanguages_def)
  with installedPacks_debian_osd
  have "installedPacks debianDepends dockerfile \<noteq> set defaultLanguages"
    by blast
  with installedPacks_debian_osd installedPacks_debian show ?thesis
    by (intro conjI)
qed

text \<open>
  C7, amended: the language packs the image asks for by name are exactly Korean and
  English, the default configuration of the OCR adapter; both are installed in the
  execution environment, whatever else the package manager brings along as dependencies;
  and the environment has poppler, the PDF renderer.
\<close>

theorem image_language_packs:
  "languagePacks (requested dockerfile) = [''kor'', ''eng''] \<and>
   set (languagePacks (requested dockerfile)) = set defaultLanguages \<and>
   ''kor'' \<in> installedPacks depends dockerfile \<and>
   ''eng'' \<in> installedPacks depends dockerfile \<and>
   ''poppler-utils'' \<in> installed depends (requested dockerfile)"
proof -
  have "''poppler-utils'' \<in> installed depends (requested dockerfile)"
    by (rule installed.asked) (simp add: requested_dockerfile)
  moreover have "''kor'' \<in> installedPacks depends dockerfile"
    by (rule installedPacks_requested) (simp add: languagePacks_dockerfile)
  moreover have "''eng'' \<in> installedPacks depends dockerfile"
    by (rule installedPacks_requested) (simp add: languagePacks_dockerfile)
  moreover have "set (languagePacks (requested dockerfile)) = set defaultLanguages"
    by (simp only: languagePacks_dockerfile defaultLanguages_def)
  ultimately show ?thesis
    using languagePacks_dockerfile by (intro conjI)
qed

theorem image_language_packs_witness:
  "''kor'' \<in> installedPacks debianDepends dockerfile \<and>
   ''eng'' \<in> installedPacks debianDepends dockerfile \<and>
   ''poppler-utils'' \<in> installed debianDepends (requested dockerfile) \<and>
   languagePacks (requested dockerfile) = defaultLanguages"
  using image_language_packs [of debianDepends]
  by (simp only: defaultLanguages_def)

section \<open>Properties of the extraction pipeline\<close>

text \<open>What a page adds to the aggregated text.\<close>

lemma number_length [simp]: "length (number i ps) = length ps"
  by (induction ps arbitrary: i) simp_all









end
